theory Spec2Isabelle
  imports Main
begin

section \<open>Values, errors and observable effects\<close>

text \<open>
  The agent of \<^verbatim>\<open>ai_agent.py\<close> reads its configuration with \<^verbatim>\<open>json.load\<close>, so a
  configuration, a post and every field of a post is a JSON value. A JSON object is a
  Python dict, kept here as an association list read with \<^const>\<open>map_of\<close>.
\<close>

datatype json =
    JNull
  | JBool bool
  | JInt int
  | JStr string
  | JList "json list"
  | JObj "(string \<times> json) list"

type_synonym py_dict = "(string \<times> json) list"

text \<open>
  The exceptions the code can meet. All of them are subclasses of Python's
  \<^verbatim>\<open>Exception\<close>, which is what every \<^verbatim>\<open>except Exception\<close> of the source catches.
\<close>

datatype py_error =
    KeyError string
  | TypeError
  | ValueError
  | AttributeError
  | RuntimeError string
  | OSError
  | ConflictingIdError string
  | SchedulerAlreadyRunningError
  | OtherError string

datatype level = INFO | ERROR

datatype log_arg = NoArg | ArgErr py_error | ArgStr string | ArgJson json

text \<open>
  What the program does to the outside world, in the order it does it: a log line (the
  text before the interpolated value, and that value), a \<^verbatim>\<open>bot.send_message\<close> call
  (chat id, text, parse mode), a \<^verbatim>\<open>requests.post\<close> upload (url, chat id, caption,
  path of the opened photo), a reply to the requester of a command, the identity
  round-trip \<^verbatim>\<open>bot.get_me\<close>, and a \<^verbatim>\<open>scheduler.shutdown(wait=...)\<close> call.
\<close>

datatype event =
    Log level string log_arg
  | SendMessage "string option" json string
  | HttpPost string "string option" json string
  | ReplyText string
  | GetMe
  | SchedulerShutdown bool

fun is_error_log :: "event \<Rightarrow> bool" where
  "is_error_log (Log ERROR _ _) = True"
| "is_error_log _ = False"

fun is_log :: "event \<Rightarrow> bool" where
  "is_log (Log _ _ _) = True"
| "is_log _ = False"

fun is_http_post :: "event \<Rightarrow> bool" where
  "is_http_post (HttpPost _ _ _ _) = True"
| "is_http_post _ = False"

fun is_send_message :: "event \<Rightarrow> bool" where
  "is_send_message (SendMessage _ _ _) = True"
| "is_send_message _ = False"

fun is_reply :: "event \<Rightarrow> bool" where
  "is_reply (ReplyText _) = True"
| "is_reply _ = False"

section \<open>Timestamps and triggers\<close>

text \<open>
  The fields of a \<^verbatim>\<open>datetime\<close> that the scheduler setup reads.
\<close>

record datetime =
  year :: int
  month :: int
  day :: int
  hour :: int
  minute :: int
  second :: int

text \<open>
  \<^verbatim>\<open>datetime.weekday()\<close>: Monday is 0, Sunday is 6, computed from the proleptic
  Gregorian ordinal as the standard library does.
\<close>

definition is_leap :: "int \<Rightarrow> bool" where
  "is_leap y = (y mod 4 = 0 \<and> (y mod 100 \<noteq> 0 \<or> y mod 400 = 0))"

definition days_before_year :: "int \<Rightarrow> int" where
  "days_before_year y = (y - 1) * 365 + (y - 1) div 4 - (y - 1) div 100 + (y - 1) div 400"

definition days_before_month :: "int \<Rightarrow> int \<Rightarrow> int" where
  "days_before_month y m =
     (if m = 1 then 0 else if m = 2 then 31 else if m = 3 then 59 else if m = 4 then 90
      else if m = 5 then 120 else if m = 6 then 151 else if m = 7 then 181
      else if m = 8 then 212 else if m = 9 then 243 else if m = 10 then 273
      else if m = 11 then 304 else 334)
     + (if m > 2 \<and> is_leap y then 1 else 0)"

definition toordinal :: "datetime \<Rightarrow> int" where
  "toordinal d = days_before_year (year d) + days_before_month (year d) (month d) + day d"

definition weekday :: "datetime \<Rightarrow> int" where
  "weekday d = (toordinal d + 6) mod 7"

text \<open>
  A field of a cron trigger is the wildcard \<^verbatim>\<open>"*"\<close> or a number. The record holds the
  keyword arguments \<^verbatim>\<open>_setup_scheduler\<close> can pass to \<^verbatim>\<open>CronTrigger\<close>; \<open>None\<close> is a
  keyword that is not passed.
\<close>

datatype cron_expr = Star | Num int

record cron_kwargs =
  cron_year :: "cron_expr option"
  cron_month :: "cron_expr option"
  cron_day :: "cron_expr option"
  cron_day_of_week :: "cron_expr option"
  cron_hour :: "cron_expr option"
  cron_minute :: "cron_expr option"

definition no_kwargs :: cron_kwargs where
  "no_kwargs = \<lparr>cron_year = None, cron_month = None, cron_day = None,
     cron_day_of_week = None, cron_hour = None, cron_minute = None\<rparr>"

text \<open>
  Lines 72 to 79 of the source: hour and minute of the parsed timestamp, and the keywords
  chosen by the chain of conditional expressions on \<^verbatim>\<open>repeat\<close>.
\<close>

definition trigger_kwargs :: "datetime \<Rightarrow> json \<Rightarrow> cron_kwargs" where
  "trigger_kwargs post_time repeat =
     (let base = no_kwargs\<lparr>cron_hour := Some (Num (hour post_time)),
                           cron_minute := Some (Num (minute post_time))\<rparr>
      in if repeat = JStr ''daily'' then base\<lparr>cron_day := Some Star\<rparr>
         else if repeat = JStr ''weekly'' then
           base\<lparr>cron_day_of_week := Some (Num (weekday post_time))\<rparr>
         else if repeat = JStr ''monthly'' then base\<lparr>cron_day := Some (Num (day post_time))\<rparr>
         else base\<lparr>cron_year := Some (Num (year post_time)),
                   cron_month := Some (Num (month post_time)),
                   cron_day := Some (Num (day post_time))\<rparr>)"

text \<open>
  The trigger engine is an external library. Its matching rule, for the keyword sets
  above: hour and minute are always given, so a keyword that is left out among year,
  month, day and day of week stands for the wildcard, the second (never given, and less
  significant than the given minute) takes its least value 0, and the day of week of an
  instant is its \<^const>\<open>weekday\<close>. The trigger fires at an instant when every field
  matches.
\<close>

fun field_matches :: "cron_expr option \<Rightarrow> int \<Rightarrow> bool" where
  "field_matches None v = True"
| "field_matches (Some Star) v = True"
| "field_matches (Some (Num n)) v = (v = n)"

definition fires :: "cron_kwargs \<Rightarrow> datetime \<Rightarrow> bool" where
  "fires k t =
     (field_matches (cron_year k) (year t) \<and> field_matches (cron_month k) (month t) \<and>
      field_matches (cron_day k) (day t) \<and> field_matches (cron_day_of_week k) (weekday t) \<and>
      field_matches (cron_hour k) (hour t) \<and> field_matches (cron_minute k) (minute t) \<and>
      second t = 0)"

section \<open>The environment: external collaborators\<close>

text \<open>
  Everything the agent calls outside its own file is a field of the environment, so that
  every result below holds whatever these calls answer:
  \<^item> \<open>getenv\<close>: the process environment;
  \<^item> \<open>read_config\<close>: \<^verbatim>\<open>open('config.json')\<close> followed by \<^verbatim>\<open>json.load\<close>, the parsed
    value or the error raised;
  \<^item> \<open>resolve\<close>: \<^verbatim>\<open>Path(p).expanduser().resolve()\<close> as a string, or the error raised;
  \<^item> \<open>fs\<close>: the file system: nothing at a path, or the kind of the entry and whether
    \<^verbatim>\<open>os.access(p, R_OK)\<close> holds;
  \<^item> \<open>strptime\<close>: \<^verbatim>\<open>datetime.strptime(s, "%Y-%m-%d %H:%M:%S")\<close>;
  \<^item> \<open>cron_trigger_error\<close>: the error \<^verbatim>\<open>CronTrigger(...)\<close> raises on these keywords,
    if any;
  \<^item> \<open>get_me\<close>, \<open>send_message\<close>, \<open>reply_text\<close>: the chat platform's answers (the bot's
    handle, or the error raised by the call);
  \<^item> \<open>open_rb\<close>: the error of \<^verbatim>\<open>open(path, "rb")\<close>, if any;
  \<^item> \<open>requests_post\<close>: the upload's status code and body, or the error raised.
\<close>

datatype file_kind = RegularFile | Directory | OtherFile

record env =
  getenv :: "string \<Rightarrow> string option"
  read_config :: "py_error + json"
  resolve :: "string \<Rightarrow> py_error + string"
  fs :: "string \<Rightarrow> (file_kind \<times> bool) option"
  strptime :: "string \<Rightarrow> py_error + datetime"
  cron_trigger_error :: "cron_kwargs \<Rightarrow> py_error option"
  get_me :: "py_error + string"
  send_message :: "string option \<Rightarrow> json \<Rightarrow> py_error option"
  reply_text :: "string \<Rightarrow> py_error option"
  open_rb :: "string \<Rightarrow> py_error option"
  requests_post :: "string \<Rightarrow> string option \<Rightarrow> json \<Rightarrow> string \<Rightarrow> py_error + (int \<times> string)"

definition path_exists :: "env \<Rightarrow> string \<Rightarrow> bool" where
  "path_exists e p = (fs e p \<noteq> None)"

definition path_is_file :: "env \<Rightarrow> string \<Rightarrow> bool" where
  "path_is_file e p = (case fs e p of Some (RegularFile, _) \<Rightarrow> True | _ \<Rightarrow> False)"

definition access_r :: "env \<Rightarrow> string \<Rightarrow> bool" where
  "access_r e p = (case fs e p of Some (_, r) \<Rightarrow> r | None \<Rightarrow> False)"

text \<open>\<^verbatim>\<open>Path(x)\<close> accepts a string only; any other JSON value is a \<^verbatim>\<open>TypeError\<close>.\<close>

definition path_resolve :: "env \<Rightarrow> json \<Rightarrow> py_error + string" where
  "path_resolve e x = (case x of JStr s \<Rightarrow> resolve e s | _ \<Rightarrow> Inl TypeError)"

section \<open>Config loader\<close>

text \<open>
  \<^verbatim>\<open>_validate_image_path\<close> (lines 48 to 56): the result and the log lines written.
\<close>

definition validate_image_path :: "env \<Rightarrow> string \<Rightarrow> string option \<times> event list" where
  "validate_image_path e path =
     (case resolve e path of
        Inl err \<Rightarrow> (None, [Log ERROR ''Path validation error'' (ArgErr err)])
      | Inr path_obj \<Rightarrow>
          if path_is_file e path_obj \<and> access_r e path_obj then (Some path_obj, [])
          else (None, [Log ERROR ''Invalid image path'' (ArgStr path_obj)]))"

text \<open>
  \<^verbatim>\<open>str.strip()\<close>: drops the white space at both ends. A character here is a code
  point below 256; the ones \<^verbatim>\<open>str.isspace\<close> accepts are the controls 9 to 13 and 28 to
  31, the space, the next-line control 133 and the no-break space 160.
\<close>

definition is_space :: "char \<Rightarrow> bool" where
  "is_space c = (of_char c \<in> {9, 10, 11, 12, 13, 28, 29, 30, 31, 32, 133, 160 :: nat})"

definition strip :: "string \<Rightarrow> string" where
  "strip s = rev (dropWhile is_space (rev (dropWhile is_space s)))"

text \<open>A dict assignment \<^verbatim>\<open>d[k] = v\<close>: the key keeps its place, or is added at the end.\<close>

fun dict_set :: "string \<Rightarrow> json \<Rightarrow> py_dict \<Rightarrow> py_dict" where
  "dict_set k v [] = [(k, v)]"
| "dict_set k v ((a, b) # ps) = (if a = k then (k, v) # ps else (a, b) # dict_set k v ps)"

definition dict_get :: "py_dict \<Rightarrow> string \<Rightarrow> json \<Rightarrow> json" where
  "dict_get d k dflt = (case map_of d k of None \<Rightarrow> dflt | Some v \<Rightarrow> v)"

text \<open>
  The body of the \<^verbatim>\<open>try\<close> of \<^verbatim>\<open>_load_config\<close> (lines 39 to 43). \<^verbatim>\<open>config.get\<close> exists
  on a dict only and \<^verbatim>\<open>.strip()\<close> on a string only: an \<^verbatim>\<open>AttributeError\<close> otherwise.
\<close>

definition load_config_body :: "env \<Rightarrow> (py_error + py_dict) \<times> event list" where
  "load_config_body e =
     (case read_config e of
        Inl err \<Rightarrow> (Inl err, [])
      | Inr (JObj config) \<Rightarrow>
          (case dict_get config ''image_path'' (JStr []) of
             JStr raw \<Rightarrow>
               (case validate_image_path e (strip raw) of
                  (None, evs) \<Rightarrow> (Inr (dict_set ''image_path'' JNull config), evs)
                | (Some p, evs) \<Rightarrow> (Inr (dict_set ''image_path'' (JStr p) config), evs))
           | _ \<Rightarrow> (Inl AttributeError, []))
      | Inr _ \<Rightarrow> (Inl AttributeError, []))"

text \<open>\<^verbatim>\<open>_load_config\<close> (lines 37 to 46): the body under \<^verbatim>\<open>except Exception\<close>.\<close>

definition load_config :: "env \<Rightarrow> (py_error + py_dict) \<times> event list" where
  "load_config e =
     (case load_config_body e of
        (Inl err, evs) \<Rightarrow>
          (Inr [(''scheduled_posts'', JList [])],
           evs @ [Log ERROR ''Config loading failed'' (ArgErr err)])
      | (Inr config, evs) \<Rightarrow> (Inr config, evs))"

section \<open>Post dispatcher\<close>

text \<open>
  The trigger engine (an \<^verbatim>\<open>AsyncIOScheduler\<close>) as the agent sees it. The callback of
  every job is \<^verbatim>\<open>_send_post\<close>; a job is its identifier, its trigger and the post it
  carries as argument. The engine is
  \<^item> \<open>running\<close>: what \<^verbatim>\<open>scheduler.running\<close> answers;
  \<^item> \<open>jobs\<close>: the jobs registered with \<^verbatim>\<open>add_job\<close>, in the order of registration:
    they are pending while the engine is stopped and in its job store while it runs;
  \<^item> \<open>leftover\<close>: what a failed start has left in the job store of a stopped engine
    (empty otherwise);
  \<^item> \<open>pending_stops\<close>: the \<^verbatim>\<open>shutdown(wait)\<close> calls handed to the event loop and not
    yet run. An \<^verbatim>\<open>AsyncIOScheduler\<close> does not stop inside \<^verbatim>\<open>shutdown\<close>: the call
    only queues the stop on the event loop.
\<close>

record job =
  job_id :: string
  job_trigger :: cron_kwargs
  job_args :: py_dict

record scheduler =
  running :: bool
  jobs :: "job list"
  leftover :: "job list"
  pending_stops :: "bool list"

datatype bot = Bot

record poster =
  bot :: "bot option"
  token :: "string option"
  chat_id :: "string option"
  scheduler :: scheduler
  config :: py_dict
  rate_limit_delay :: nat
  is_ready :: bool

text \<open>
  \<^verbatim>\<open>__init__\<close> (lines 25 to 32). \<^const>\<open>load_config\<close> always returns a dict, as
  shown below; the error branch, which is never taken, keeps the fallback dict.
\<close>

definition init_poster :: "env \<Rightarrow> poster \<times> event list" where
  "init_poster e =
     (case load_config e of
        (r, evs) \<Rightarrow>
          (\<lparr>bot = None,
            token = getenv e ''TELEGRAM_BOT_TOKEN'',
            chat_id = getenv e ''TELEGRAM_CHAT_ID'',
            scheduler = \<lparr>running = False, jobs = [], leftover = [], pending_stops = []\<rparr>,
            config = (case r of Inr c \<Rightarrow> c | Inl _ \<Rightarrow> [(''scheduled_posts'', JList [])]),
            rate_limit_delay = 1,
            is_ready = False\<rparr>, evs))"

definition set_bot :: "poster \<Rightarrow> bot \<Rightarrow> poster" where
  "set_bot s b = s\<lparr>bot := Some b\<rparr>"

subsection \<open>Sending\<close>

text \<open>
  \<^verbatim>\<open>x[:50]\<close> in the two log lines: a slice of a string or of a list; any other JSON
  value has no slice.
\<close>

definition slice50 :: "json \<Rightarrow> py_error + json" where
  "slice50 x = (case x of JStr s \<Rightarrow> Inr (JStr (take 50 s))
                        | JList xs \<Rightarrow> Inr (JList (take 50 xs))
                        | _ \<Rightarrow> Inl TypeError)"

text \<open>
  \<^verbatim>\<open>_send_text\<close> (lines 93 to 95). A call on a bot that was never attached is an
  \<^verbatim>\<open>AttributeError\<close> on \<^verbatim>\<open>None\<close>.
\<close>

definition send_text :: "env \<Rightarrow> poster \<Rightarrow> json \<Rightarrow> (py_error + unit) \<times> event list" where
  "send_text e s text =
     (case bot s of
        None \<Rightarrow> (Inl AttributeError, [])
      | Some _ \<Rightarrow>
          (case send_message e (chat_id s) text of
             Some err \<Rightarrow> (Inl err, [SendMessage (chat_id s) text ''HTML''])
           | None \<Rightarrow>
               (case slice50 text of
                  Inl err \<Rightarrow> (Inl err, [SendMessage (chat_id s) text ''HTML''])
                | Inr t \<Rightarrow>
                    (Inr (), [SendMessage (chat_id s) text ''HTML'',
                              Log INFO ''Sent message'' (ArgJson t)]))))"

text \<open>The upload url of line 104; a missing token is formatted as \<^verbatim>\<open>None\<close>.\<close>

definition send_photo_url :: "poster \<Rightarrow> string" where
  "send_photo_url s =
     ''https://api.telegram.org/bot'' @ (case token s of None \<Rightarrow> ''None'' | Some t \<Rightarrow> t)
       @ ''/sendPhoto''"

text \<open>The body of the \<^verbatim>\<open>try\<close> of \<^verbatim>\<open>_send_media\<close> (lines 99 to 113).\<close>

definition send_media_body ::
    "env \<Rightarrow> poster \<Rightarrow> json \<Rightarrow> json \<Rightarrow> (py_error + unit) \<times> event list" where
  "send_media_body e s caption media_path =
     (case path_resolve e media_path of
        Inl err \<Rightarrow> (Inl err, [])
      | Inr full_path \<Rightarrow>
          if \<not> path_exists e full_path then
            (Inr (), [Log ERROR ''Media file not found'' (ArgStr full_path)])
          else
            (case open_rb e full_path of
               Some err \<Rightarrow> (Inl err, [])
             | None \<Rightarrow>
                 (let req = HttpPost (send_photo_url s) (chat_id s) caption full_path in
                  case requests_post e (send_photo_url s) (chat_id s) caption full_path of
                    Inl err \<Rightarrow> (Inl err, [req])
                  | Inr (status_code, body) \<Rightarrow>
                      if status_code = 200 then
                        (case slice50 caption of
                           Inl err \<Rightarrow> (Inl err, [req])
                         | Inr c \<Rightarrow>
                             (Inr (), [req, Log INFO ''Successfully sent media'' (ArgJson c)]))
                      else (Inr (), [req, Log ERROR ''Failed to send media'' (ArgStr body)]))))"

text \<open>\<^verbatim>\<open>_send_media\<close> (lines 97 to 115): the body under \<^verbatim>\<open>except Exception\<close>.\<close>

definition send_media ::
    "env \<Rightarrow> poster \<Rightarrow> json \<Rightarrow> json \<Rightarrow> (py_error + unit) \<times> event list" where
  "send_media e s caption media_path =
     (case send_media_body e s caption media_path of
        (Inl err, evs) \<Rightarrow>
          (Inr (), evs @ [Log ERROR ''Error uploading media via HTTPS'' (ArgErr err)])
      | (Inr u, evs) \<Rightarrow> (Inr u, evs))"

text \<open>\<^verbatim>\<open>post[k]\<close> on a dict: the value, or a \<^verbatim>\<open>KeyError\<close>.\<close>

definition subscript :: "py_dict \<Rightarrow> string \<Rightarrow> py_error + json" where
  "subscript d k = (case map_of d k of None \<Rightarrow> Inl (KeyError k) | Some v \<Rightarrow> Inr v)"

text \<open>
  The body of the \<^verbatim>\<open>try\<close> of \<^verbatim>\<open>_send_post\<close> (lines 86 to 89). The arguments of a call
  are evaluated left to right, \<^verbatim>\<open>post["text"]\<close> first.
\<close>

definition send_post_body :: "env \<Rightarrow> poster \<Rightarrow> py_dict \<Rightarrow> (py_error + unit) \<times> event list" where
  "send_post_body e s post =
     (if map_of post ''media'' \<noteq> None then
        (case subscript post ''text'' of
           Inl err \<Rightarrow> (Inl err, [])
         | Inr text \<Rightarrow>
             (case subscript post ''media'' of
                Inl err \<Rightarrow> (Inl err, [])
              | Inr media \<Rightarrow> send_media e s text media))
      else
        (case subscript post ''text'' of
           Inl err \<Rightarrow> (Inl err, [])
         | Inr text \<Rightarrow> send_text e s text))"

text \<open>\<^verbatim>\<open>_send_post\<close> (lines 84 to 91): the body under \<^verbatim>\<open>except Exception\<close>.\<close>

definition send_post :: "env \<Rightarrow> poster \<Rightarrow> py_dict \<Rightarrow> (py_error + unit) \<times> event list" where
  "send_post e s post =
     (case send_post_body e s post of
        (Inl err, evs) \<Rightarrow> (Inr (), evs @ [Log ERROR ''Send post error'' (ArgErr err)])
      | (Inr u, evs) \<Rightarrow> (Inr u, evs))"

text \<open>Python's truth value of a JSON value, as \<^verbatim>\<open>not x\<close> reads it.\<close>

definition truthy :: "json \<Rightarrow> bool" where
  "truthy x = (case x of JNull \<Rightarrow> False | JBool b \<Rightarrow> b | JInt n \<Rightarrow> n \<noteq> 0
                       | JStr s \<Rightarrow> s \<noteq> [] | JList xs \<Rightarrow> xs \<noteq> [] | JObj ps \<Rightarrow> ps \<noteq> [])"

definition reply :: "env \<Rightarrow> string \<Rightarrow> (py_error + unit) \<times> event list" where
  "reply e msg = (case reply_text e msg of
                    Some err \<Rightarrow> (Inl err, [ReplyText msg])
                  | None \<Rightarrow> (Inr (), [ReplyText msg]))"

definition default_caption :: string where
  "default_caption = ''Here's the requested image!''"

text \<open>
  \<^verbatim>\<open>send_default_image\<close> (lines 117 to 125). \<^verbatim>\<open>config.get("image_path")\<close> is \<^verbatim>\<open>None\<close>
  when the key is missing.
\<close>

definition send_default_image :: "env \<Rightarrow> poster \<Rightarrow> (py_error + unit) \<times> event list" where
  "send_default_image e s =
     (if \<not> is_ready s then reply e ''Bot not ready yet.''
      else
        (let default_image = dict_get (config s) ''image_path'' JNull
         in if \<not> truthy default_image then reply e ''No default image configured.''
            else send_media e s (JStr default_caption) default_image))"

subsection \<open>Scheduler setup\<close>

text \<open>Decimal digits of an index, for the job identifier \<^verbatim>\<open>f"post_{idx}"\<close>.\<close>

fun str_of_nat :: "nat \<Rightarrow> string" where
  "str_of_nat n =
     (if n < 10 then [char_of (48 + n)]
      else str_of_nat (n div 10) @ [char_of (48 + n mod 10)])"

declare str_of_nat.simps [simp del]

text \<open>
  \<^verbatim>\<open>enumerate(x)\<close> iterates a list over its elements, a dict over its keys and a string
  over its characters; any other JSON value is not iterable.
\<close>

definition iter_json :: "json \<Rightarrow> py_error + json list" where
  "iter_json x = (case x of JList xs \<Rightarrow> Inr xs
                          | JObj ps \<Rightarrow> Inr (map (\<lambda>p. JStr (fst p)) ps)
                          | JStr s \<Rightarrow> Inr (map (\<lambda>c. JStr [c]) s)
                          | _ \<Rightarrow> Inl TypeError)"

text \<open>\<^verbatim>\<open>datetime.strptime(x, ...)\<close> accepts a string only.\<close>

definition parse_time :: "env \<Rightarrow> json \<Rightarrow> py_error + datetime" where
  "parse_time e x = (case x of JStr t \<Rightarrow> strptime e t | _ \<Rightarrow> Inl TypeError)"

text \<open>
  Lines 70 to 79 and the arguments of \<^verbatim>\<open>add_job\<close> on line 80: the job built for the
  post at index \<open>idx\<close>, or the error raised on the way. Only a dict can be subscripted
  with \<^verbatim>\<open>"time"\<close>.
\<close>

definition new_job :: "env \<Rightarrow> nat \<Rightarrow> json \<Rightarrow> py_error + job" where
  "new_job e idx post =
     (case post of
        JObj d \<Rightarrow>
          (case subscript d ''time'' of
             Inl err \<Rightarrow> Inl err
           | Inr t \<Rightarrow>
               (case parse_time e t of
                  Inl err \<Rightarrow> Inl err
                | Inr post_time \<Rightarrow>
                    (let repeat = dict_get d ''repeat'' (JStr ''once'');
                         trigger = trigger_kwargs post_time repeat
                     in case cron_trigger_error e trigger of
                          Some err \<Rightarrow> Inl err
                        | None \<Rightarrow>
                            Inr \<lparr>job_id = ''post_'' @ str_of_nat idx,
                                 job_trigger = trigger, job_args = d\<rparr>)))
      | _ \<Rightarrow> Inl TypeError)"

text \<open>
  \<^verbatim>\<open>scheduler.add_job\<close>: a stopped scheduler keeps the job as pending; a running one
  puts it in its job store, which refuses an identifier it already has.
\<close>

definition add_job :: "scheduler \<Rightarrow> job \<Rightarrow> py_error + scheduler" where
  "add_job sch j =
     (if running sch \<and> job_id j \<in> set (map job_id (jobs sch))
      then Inl (ConflictingIdError (job_id j))
      else Inr (sch\<lparr>jobs := jobs sch @ [j]\<rparr>))"

definition schedule_post :: "env \<Rightarrow> scheduler \<Rightarrow> nat \<Rightarrow> json \<Rightarrow> py_error + scheduler" where
  "schedule_post e sch idx post =
     (case new_job e idx post of Inl err \<Rightarrow> Inl err | Inr j \<Rightarrow> add_job sch j)"

text \<open>The \<^verbatim>\<open>for\<close> loop of \<^verbatim>\<open>_setup_scheduler\<close>, each turn under its own \<^verbatim>\<open>try\<close>.\<close>

fun setup_loop :: "env \<Rightarrow> nat \<Rightarrow> json list \<Rightarrow> scheduler \<Rightarrow> scheduler \<times> event list" where
  "setup_loop e idx [] sch = (sch, [])"
| "setup_loop e idx (post # posts) sch =
     (case schedule_post e sch idx post of
        Inl err \<Rightarrow>
          (case setup_loop e (Suc idx) posts sch of
             (sch', evs) \<Rightarrow> (sch', Log ERROR ''Failed to schedule post'' (ArgErr err) # evs))
      | Inr sch1 \<Rightarrow> setup_loop e (Suc idx) posts sch1)"

text \<open>
  \<^verbatim>\<open>_setup_scheduler\<close> (lines 67 to 82). The iteration itself is outside the \<^verbatim>\<open>try\<close>.
\<close>

definition setup_scheduler :: "env \<Rightarrow> poster \<Rightarrow> (py_error + unit) \<times> poster \<times> event list" where
  "setup_scheduler e s =
     (case iter_json (dict_get (config s) ''scheduled_posts'' (JList [])) of
        Inl err \<Rightarrow> (Inl err, s, [])
      | Inr posts \<Rightarrow>
          (case setup_loop e 0 posts (scheduler s) of
             (sch, evs) \<Rightarrow> (Inr (), s\<lparr>scheduler := sch\<rparr>, evs)))"

subsection \<open>Life cycle\<close>

text \<open>
  \<^verbatim>\<open>scheduler.start()\<close> refuses a running engine. Otherwise it moves the pending jobs
  into the job store one by one, and only then counts as running: a job whose identifier
  the store already holds raises \<^verbatim>\<open>ConflictingIdError\<close>, which leaves the engine
  stopped, the jobs pending and the store with what was moved before.
\<close>

fun add_pending :: "job list \<Rightarrow> job list \<Rightarrow> py_error option \<times> job list" where
  "add_pending [] store = (None, store)"
| "add_pending (j # js) store =
     (if job_id j \<in> set (map job_id store) then (Some (ConflictingIdError (job_id j)), store)
      else add_pending js (store @ [j]))"

definition scheduler_start :: "scheduler \<Rightarrow> (py_error + unit) \<times> scheduler" where
  "scheduler_start sch =
     (if running sch then (Inl SchedulerAlreadyRunningError, sch)
      else
        (case add_pending (jobs sch) (leftover sch) of
           (Some err, store) \<Rightarrow> (Inl err, sch\<lparr>leftover := store\<rparr>)
         | (None, store) \<Rightarrow> (Inr (), sch\<lparr>running := True, jobs := store, leftover := []\<rparr>)))"

text \<open>\<^verbatim>\<open>initialize\<close> (lines 58 to 65).\<close>

definition initialize :: "env \<Rightarrow> poster \<Rightarrow> (py_error + unit) \<times> poster \<times> event list" where
  "initialize e s =
     (case bot s of
        None \<Rightarrow> (Inl (RuntimeError ''Bot instance not set''), s, [])
      | Some _ \<Rightarrow>
          (case get_me e of
             Inl err \<Rightarrow> (Inl err, s, [GetMe])
           | Inr username \<Rightarrow>
               (let pre = [GetMe, Log INFO ''Bot initialized as @'' (ArgStr username)]
                in case setup_scheduler e s of
                     (Inl err, s1, evs) \<Rightarrow> (Inl err, s1, pre @ evs)
                   | (Inr _, s1, evs) \<Rightarrow>
                       (case scheduler_start (scheduler s1) of
                          (Inl err, sch) \<Rightarrow> (Inl err, s1\<lparr>scheduler := sch\<rparr>, pre @ evs)
                        | (Inr _, sch) \<Rightarrow>
                            (Inr (), s1\<lparr>scheduler := sch, is_ready := True\<rparr>, pre @ evs)))))"





section \<open>Registered jobs and logged failures\<close>

text \<open>
  What one turn of the loop of \<^verbatim>\<open>_setup_scheduler\<close> leaves behind for the post at an
  index: the job it registers, or the line it logs.
\<close>

definition job_of :: "env \<Rightarrow> nat \<times> json \<Rightarrow> job option" where
  "job_of e ip = (case new_job e (fst ip) (snd ip) of Inl _ \<Rightarrow> None | Inr j \<Rightarrow> Some j)"

definition failure_of :: "env \<Rightarrow> nat \<times> json \<Rightarrow> event option" where
  "failure_of e ip =
     (case new_job e (fst ip) (snd ip) of
        Inl err \<Rightarrow> Some (Log ERROR ''Failed to schedule post'' (ArgErr err))
      | Inr _ \<Rightarrow> None)"

section \<open>An example process\<close>

text \<open>
  A concrete process for the examples below: a home directory with one readable image, a
  directory and an unreadable file, a chat platform that answers, and a configuration of
  five posts: a daily text, a weekly image whose file is missing, a post whose timestamp
  does not parse, a monthly image, and a one-time image post with no text.
\<close>

definition text_post :: py_dict where
  "text_post = [(''text'', JStr ''Good morning''), (''time'', JStr ''2024-01-15 09:30:00''),
                (''repeat'', JStr ''daily'')]"

definition missing_media_post :: py_dict where
  "missing_media_post =
     [(''text'', JStr ''Weekly digest''), (''media'', JStr ''~/missing.png''),
      (''time'', JStr ''2024-01-15 09:30:00''), (''repeat'', JStr ''weekly'')]"

definition broken_post :: py_dict where
  "broken_post = [(''text'', JStr ''Broken''), (''time'', JStr ''tomorrow'')]"

definition image_post :: py_dict where
  "image_post =
     [(''text'', JStr ''Logo''), (''media'', JStr ''~/logo.png''),
      (''time'', JStr ''2024-01-15 09:30:00''), (''repeat'', JStr ''monthly'')]"

definition no_text_post :: py_dict where
  "no_text_post = [(''media'', JStr ''~/logo.png''), (''time'', JStr ''2024-01-15 09:30:00'')]"

definition example_posts :: "json list" where
  "example_posts =
     [JObj text_post, JObj missing_media_post, JObj broken_post, JObj image_post,
      JObj no_text_post]"

definition example_time :: datetime where
  "example_time = \<lparr>year = 2024, month = 1, day = 15, hour = 9, minute = 30, second = 0\<rparr>"

definition example_env :: env where
  "example_env =
     \<lparr>getenv = [''TELEGRAM_BOT_TOKEN'' \<mapsto> ''123:abc'', ''TELEGRAM_CHAT_ID'' \<mapsto> ''42''],
      read_config = Inr (JObj [(''scheduled_posts'', JList example_posts),
                               (''image_path'', JStr '' ~/logo.png '')]),
      resolve = (\<lambda>p. if p = [] then Inl OSError
                      else if take 2 p = ''~/'' then Inr (''/home/bot/'' @ drop 2 p)
                      else Inr p),
      fs = [''/home/bot/logo.png'' \<mapsto> (RegularFile, True),
            ''/home/bot/secret.png'' \<mapsto> (RegularFile, False),
            ''/home/bot'' \<mapsto> (Directory, True)],
      strptime = (\<lambda>t. if t = ''2024-01-15 09:30:00'' then Inr example_time
                       else Inl ValueError),
      cron_trigger_error = (\<lambda>k. None),
      get_me = Inr ''poster_bot'',
      send_message = (\<lambda>c t. None),
      reply_text = (\<lambda>m. None),
      open_rb = (\<lambda>p. None),
      requests_post = (\<lambda>u c t p. Inr (200, ''ok''))\<rparr>"

text \<open>The same process with no configuration file to read.\<close>

definition broken_env :: env where
  "broken_env = example_env\<lparr>read_config := Inl OSError\<rparr>"

text \<open>
  The agent after construction and \<^verbatim>\<open>set_bot\<close>, after \<^verbatim>\<open>initialize\<close>, and the agent
  of the process without a configuration after \<^verbatim>\<open>initialize\<close>.
\<close>

definition example_poster :: poster where
  "example_poster = set_bot (fst (init_poster example_env)) Bot"

definition ready_poster :: poster where
  "ready_poster = fst (snd (initialize example_env example_poster))"

definition bare_poster :: poster where
  "bare_poster = fst (snd (initialize broken_env (set_bot (fst (init_poster broken_env)) Bot)))"


text \<open>The four jobs the example configuration registers.\<close>

definition daily_job :: job where
  "daily_job =
     \<lparr>job_id = ''post_0'',
      job_trigger = no_kwargs\<lparr>cron_day := Some Star, cron_hour := Some (Num 9),
                              cron_minute := Some (Num 30)\<rparr>,
      job_args = text_post\<rparr>"

definition weekly_job :: job where
  "weekly_job =
     \<lparr>job_id = ''post_1'',
      job_trigger = no_kwargs\<lparr>cron_day_of_week := Some (Num 0), cron_hour := Some (Num 9),
                              cron_minute := Some (Num 30)\<rparr>,
      job_args = missing_media_post\<rparr>"

definition monthly_job :: job where
  "monthly_job =
     \<lparr>job_id = ''post_3'',
      job_trigger = no_kwargs\<lparr>cron_day := Some (Num 15), cron_hour := Some (Num 9),
                              cron_minute := Some (Num 30)\<rparr>,
      job_args = image_post\<rparr>"

definition once_job :: job where
  "once_job =
     \<lparr>job_id = ''post_4'',
      job_trigger = no_kwargs\<lparr>cron_year := Some (Num 2024), cron_month := Some (Num 1),
                              cron_day := Some (Num 15), cron_hour := Some (Num 9),
                              cron_minute := Some (Num 30)\<rparr>,
      job_args = no_text_post\<rparr>"

section \<open>Auxiliary facts\<close>

subsection \<open>Sending\<close>

lemma send_media_returns: "fst (send_media e s caption media_path) = Inr ()"
  by (simp add: send_media_def split: prod.splits sum.splits)

lemma send_media_no_message: "filter is_send_message (snd (send_media e s caption media_path)) = []"
  by (auto simp: send_media_def send_media_body_def Let_def split: prod.splits sum.splits option.splits if_splits)

lemma send_media_no_reply: "filter is_reply (snd (send_media e s caption media_path)) = []"
  by (auto simp: send_media_def send_media_body_def Let_def split: prod.splits sum.splits option.splits if_splits)

lemma send_text_no_upload: "filter is_http_post (snd (send_text e s text)) = []"
  by (auto simp: send_text_def split: option.splits sum.splits)

lemma send_media_absent:
  "path_resolve e m = Inr p \<Longrightarrow> \<not> path_exists e p \<Longrightarrow>
   send_media e s caption m = (Inr (), [Log ERROR ''Media file not found'' (ArgStr p)])"
  by (simp add: send_media_def send_media_body_def)

lemma send_media_present:
  "path_resolve e m = Inr p \<Longrightarrow> path_exists e p \<Longrightarrow> open_rb e p = None \<Longrightarrow>
   filter is_http_post (snd (send_media e s caption m)) =
     [HttpPost (send_photo_url s) (chat_id s) caption p]"
  by (auto simp: send_media_def send_media_body_def Let_def split: prod.splits sum.splits option.splits if_splits)

lemma send_media_at_most_one:
  "length (filter is_http_post (snd (send_media e s caption m))) \<le> Suc 0"
  by (auto simp: send_media_def send_media_body_def Let_def split: prod.splits sum.splits option.splits if_splits)

subsection \<open>The setup loop\<close>

lemma in_set_map_filter: "y \<in> set (List.map_filter f xs) \<longleftrightarrow> (\<exists>x \<in> set xs. f x = Some y)"
  by (induction xs) (auto split: option.splits)

lemma setup_loop_stopped:
  "\<not> running sch \<Longrightarrow>
   setup_loop e idx posts sch =
     (sch\<lparr>jobs := jobs sch @ List.map_filter (job_of e) (enumerate idx posts)\<rparr>,
      List.map_filter (failure_of e) (enumerate idx posts))"
proof (induction posts arbitrary: idx sch)
  case Nil
  then show ?case by simp
next
  case (Cons post posts)
  show ?case
  proof (cases "new_job e idx post")
    case (Inl err)
    with Cons show ?thesis
      by (simp add: schedule_post_def job_of_def failure_of_def)
  next
    case (Inr j)
    let ?sch1 = "sch\<lparr>jobs := jobs sch @ [j]\<rparr>"
    from Cons.prems have "\<not> running ?sch1" by simp
    from Cons.IH [OF this, of "Suc idx"] Inr Cons.prems show ?thesis
      by (simp add: schedule_post_def add_job_def job_of_def failure_of_def)
  qed
qed

lemma setup_loop_new_jobs:
  "setup_loop e idx posts sch = (sch', evs) \<Longrightarrow>
   \<exists>js. jobs sch' = jobs sch @ js \<and> (\<forall>j \<in> set js. \<exists>i p. new_job e i p = Inr j)"
proof (induction posts arbitrary: idx sch sch' evs)
  case Nil
  then show ?case by auto
next
  case (Cons post posts)
  show ?case
  proof (cases "schedule_post e sch idx post")
    case (Inl err)
    with Cons.prems obtain evs' where "setup_loop e (Suc idx) posts sch = (sch', evs')"
      by (auto split: prod.splits)
    from Cons.IH [OF this] show ?thesis .
  next
    case (Inr sch1)
    then obtain j where j: "new_job e idx post = Inr j" and s1: "sch1 = sch\<lparr>jobs := jobs sch @ [j]\<rparr>"
      by (auto simp: schedule_post_def add_job_def split: sum.splits if_splits)
    from Inr Cons.prems have "setup_loop e (Suc idx) posts sch1 = (sch', evs)" by simp
    from Cons.IH [OF this] obtain js where
      js: "jobs sch' = jobs sch1 @ js" "\<forall>j \<in> set js. \<exists>i p. new_job e i p = Inr j" by blast
    from js s1 have "jobs sch' = jobs sch @ (j # js)" by simp
    moreover from js j have "\<forall>j' \<in> set (j # js). \<exists>i p. new_job e i p = Inr j'" by auto
    ultimately show ?thesis by blast
  qed
qed

lemma new_job_Inr:
  "new_job e i p = Inr j \<Longrightarrow>
   \<exists>d t dt. p = JObj d \<and> map_of d ''time'' = Some (JStr t) \<and> strptime e t = Inr dt \<and>
     cron_trigger_error e (trigger_kwargs dt (dict_get d ''repeat'' (JStr ''once''))) = None \<and>
     j = \<lparr>job_id = ''post_'' @ str_of_nat i,
          job_trigger = trigger_kwargs dt (dict_get d ''repeat'' (JStr ''once'')),
          job_args = d\<rparr>"
  by (auto simp: new_job_def subscript_def parse_time_def Let_def
           split: json.splits option.splits sum.splits)

lemma new_job_ok:
  "map_of d ''time'' = Some (JStr t) \<Longrightarrow> strptime e t = Inr dt \<Longrightarrow>
   cron_trigger_error e (trigger_kwargs dt (dict_get d ''repeat'' (JStr ''once''))) = None \<Longrightarrow>
   new_job e i (JObj d) =
     Inr \<lparr>job_id = ''post_'' @ str_of_nat i,
          job_trigger = trigger_kwargs dt (dict_get d ''repeat'' (JStr ''once'')),
          job_args = d\<rparr>"
  by (simp add: new_job_def subscript_def parse_time_def Let_def)

subsection \<open>Reading a trigger\<close>

lemma fires_daily:
  "fires (trigger_kwargs dt (JStr ''daily'')) t \<longleftrightarrow>
     hour t = hour dt \<and> minute t = minute dt \<and> second t = 0"
  by (simp add: fires_def trigger_kwargs_def no_kwargs_def)

lemma fires_weekly:
  "fires (trigger_kwargs dt (JStr ''weekly'')) t \<longleftrightarrow>
     weekday t = weekday dt \<and> hour t = hour dt \<and> minute t = minute dt \<and> second t = 0"
  by (simp add: fires_def trigger_kwargs_def no_kwargs_def)

lemma fires_monthly:
  "fires (trigger_kwargs dt (JStr ''monthly'')) t \<longleftrightarrow>
     day t = day dt \<and> hour t = hour dt \<and> minute t = minute dt \<and> second t = 0"
  by (simp add: fires_def trigger_kwargs_def no_kwargs_def)

lemma fires_once:
  "repeat \<noteq> JStr ''daily'' \<Longrightarrow> repeat \<noteq> JStr ''weekly'' \<Longrightarrow> repeat \<noteq> JStr ''monthly'' \<Longrightarrow>
   fires (trigger_kwargs dt repeat) t \<longleftrightarrow> t = dt\<lparr>second := 0\<rparr>"
  by (cases t; cases dt) (auto simp: fires_def trigger_kwargs_def no_kwargs_def)


subsection \<open>Queued stops\<close>





section \<open>The claims\<close>


text \<open>
  Claim C1. Every job that \<^verbatim>\<open>_setup_scheduler\<close> registers carries a post whose
  \<open>time\<close> parsed, and its trigger follows the recurrence table on the post's
  \<open>repeat\<close> (\<open>once\<close> when the key is missing): \<open>daily\<close> gives the wildcard day with the
  timestamp's hour and minute, so the rule fires at that hour and minute of every day;
  \<open>weekly\<close> gives the timestamp's weekday, so the rule fires on that weekday at that
  hour and minute; \<open>monthly\<close> gives the timestamp's day of month; any other value gives
  the timestamp's year, month and day, so the rule fires at one instant only, the
  timestamp's own date, hour and minute.
\<close>

theorem trigger_follows_recurrence_table:
  assumes "setup_scheduler e s = (r, s', evs)"
    and "j \<in> set (drop (length (jobs (scheduler s))) (jobs (scheduler s')))"
  shows "\<exists>t dt. map_of (job_args j) ''time'' = Some (JStr t) \<and> strptime e t = Inr dt \<and>
     (dict_get (job_args j) ''repeat'' (JStr ''once'') = JStr ''daily'' \<longrightarrow>
        job_trigger j = no_kwargs\<lparr>cron_day := Some Star, cron_hour := Some (Num (hour dt)),
                                  cron_minute := Some (Num (minute dt))\<rparr> \<and>
        (\<forall>i. fires (job_trigger j) i \<longleftrightarrow>
               hour i = hour dt \<and> minute i = minute dt \<and> second i = 0)) \<and>
     (dict_get (job_args j) ''repeat'' (JStr ''once'') = JStr ''weekly'' \<longrightarrow>
        job_trigger j = no_kwargs\<lparr>cron_day_of_week := Some (Num (weekday dt)),
                                  cron_hour := Some (Num (hour dt)),
                                  cron_minute := Some (Num (minute dt))\<rparr> \<and>
        (\<forall>i. fires (job_trigger j) i \<longleftrightarrow>
               weekday i = weekday dt \<and> hour i = hour dt \<and> minute i = minute dt \<and>
               second i = 0)) \<and>
     (dict_get (job_args j) ''repeat'' (JStr ''once'') = JStr ''monthly'' \<longrightarrow>
        job_trigger j = no_kwargs\<lparr>cron_day := Some (Num (day dt)),
                                  cron_hour := Some (Num (hour dt)),
                                  cron_minute := Some (Num (minute dt))\<rparr> \<and>
        (\<forall>i. fires (job_trigger j) i \<longleftrightarrow>
               day i = day dt \<and> hour i = hour dt \<and> minute i = minute dt \<and> second i = 0)) \<and>
     (dict_get (job_args j) ''repeat'' (JStr ''once'')
          \<notin> {JStr ''daily'', JStr ''weekly'', JStr ''monthly''} \<longrightarrow>
        job_trigger j = no_kwargs\<lparr>cron_year := Some (Num (year dt)),
                                  cron_month := Some (Num (month dt)),
                                  cron_day := Some (Num (day dt)),
                                  cron_hour := Some (Num (hour dt)),
                                  cron_minute := Some (Num (minute dt))\<rparr> \<and>
        (\<forall>i. fires (job_trigger j) i \<longleftrightarrow> i = dt\<lparr>second := 0\<rparr>))"
proof -
  have "\<exists>posts sch. setup_loop e 0 posts (scheduler s) = (sch, evs) \<and>
      jobs (scheduler s') = jobs sch"
  proof (cases "iter_json (dict_get (config s) ''scheduled_posts'' (JList []))")
    case (Inl err)
    with assms(1) have "s' = s" by (simp add: setup_scheduler_def)
    with assms(2) show ?thesis by simp
  next
    case (Inr posts)
    obtain sch evs' where l: "setup_loop e 0 posts (scheduler s) = (sch, evs')"
      by (cases "setup_loop e 0 posts (scheduler s)")
    with Inr assms(1) have "evs' = evs" "s' = s\<lparr>scheduler := sch\<rparr>"
      by (simp_all add: setup_scheduler_def)
    with l show ?thesis by auto
  qed
  then obtain posts sch where
    loop: "setup_loop e 0 posts (scheduler s) = (sch, evs)" and s': "jobs (scheduler s') = jobs sch"
    by blast
  from setup_loop_new_jobs [OF loop] obtain js where
    js: "jobs sch = jobs (scheduler s) @ js" "\<forall>j \<in> set js. \<exists>i p. new_job e i p = Inr j"
    by blast
  from assms(2) s' js have "j \<in> set js" by simp
  with js obtain i p where "new_job e i p = Inr j" by blast
  from new_job_Inr [OF this] obtain d t dt where
    t: "map_of d ''time'' = Some (JStr t)" "strptime e t = Inr dt" and
    j: "j = \<lparr>job_id = ''post_'' @ str_of_nat i,
          job_trigger = trigger_kwargs dt (dict_get d ''repeat'' (JStr ''once'')),
          job_args = d\<rparr>"
    by blast
  let ?rep = "dict_get d ''repeat'' (JStr ''once'')"
  have daily: "trigger_kwargs dt ?rep = no_kwargs\<lparr>cron_day := Some Star,
      cron_hour := Some (Num (hour dt)), cron_minute := Some (Num (minute dt))\<rparr>"
    if "?rep = JStr ''daily''"
    using that by (simp add: trigger_kwargs_def no_kwargs_def)
  have weekly: "trigger_kwargs dt ?rep = no_kwargs\<lparr>cron_day_of_week := Some (Num (weekday dt)),
      cron_hour := Some (Num (hour dt)), cron_minute := Some (Num (minute dt))\<rparr>"
    if "?rep = JStr ''weekly''"
    using that by (simp add: trigger_kwargs_def no_kwargs_def)
  have monthly: "trigger_kwargs dt ?rep = no_kwargs\<lparr>cron_day := Some (Num (day dt)),
      cron_hour := Some (Num (hour dt)), cron_minute := Some (Num (minute dt))\<rparr>"
    if "?rep = JStr ''monthly''"
    using that by (simp add: trigger_kwargs_def no_kwargs_def)
  have once: "trigger_kwargs dt ?rep = no_kwargs\<lparr>cron_year := Some (Num (year dt)),
      cron_month := Some (Num (month dt)), cron_day := Some (Num (day dt)),
      cron_hour := Some (Num (hour dt)), cron_minute := Some (Num (minute dt))\<rparr>"
    if "?rep \<notin> {JStr ''daily'', JStr ''weekly'', JStr ''monthly''}"
    using that by (simp add: trigger_kwargs_def no_kwargs_def)
  have f1: "\<forall>i. fires (trigger_kwargs dt ?rep) i \<longleftrightarrow>
               hour i = hour dt \<and> minute i = minute dt \<and> second i = 0"
    if "?rep = JStr ''daily''"
    using that by (simp add: fires_daily)
  have f2: "\<forall>i. fires (trigger_kwargs dt ?rep) i \<longleftrightarrow>
               weekday i = weekday dt \<and> hour i = hour dt \<and> minute i = minute dt \<and> second i = 0"
    if "?rep = JStr ''weekly''"
    using that by (simp add: fires_weekly)
  have f3: "\<forall>i. fires (trigger_kwargs dt ?rep) i \<longleftrightarrow>
               day i = day dt \<and> hour i = hour dt \<and> minute i = minute dt \<and> second i = 0"
    if "?rep = JStr ''monthly''"
    using that by (simp add: fires_monthly)
  have f4: "\<forall>i. fires (trigger_kwargs dt ?rep) i \<longleftrightarrow> i = dt\<lparr>second := 0\<rparr>"
    if "?rep \<notin> {JStr ''daily'', JStr ''weekly'', JStr ''monthly''}"
    using that by (simp add: fires_once)
  have args: "job_args j = d" and trig: "job_trigger j = trigger_kwargs dt ?rep"
    by (simp_all add: j)
  show ?thesis
    unfolding args trig
    using t daily weekly monthly once f1 f2 f3 f4 by blast
qed


text \<open>The same, on the example process.\<close>

theorem trigger_follows_recurrence_table_witness:
  "set [daily_job, weekly_job, monthly_job, once_job] \<subseteq>
     set (drop (length (jobs (scheduler example_poster)))
            (jobs (scheduler (fst (snd (setup_scheduler example_env example_poster)))))) \<and>
   fires (job_trigger daily_job) (example_time\<lparr>year := 2031, month := 7, day := 4\<rparr>) \<and>
   \<not> fires (job_trigger daily_job) (example_time\<lparr>minute := 31\<rparr>) \<and>
   fires (job_trigger weekly_job) (example_time\<lparr>day := 22\<rparr>) \<and>
   \<not> fires (job_trigger weekly_job) (example_time\<lparr>day := 23\<rparr>) \<and>
   fires (job_trigger monthly_job) (example_time\<lparr>month := 2\<rparr>) \<and>
   \<not> fires (job_trigger monthly_job) (example_time\<lparr>day := 16\<rparr>) \<and>
   fires (job_trigger once_job) example_time \<and>
   \<not> fires (job_trigger once_job) (example_time\<lparr>year := 2025\<rparr>)"
proof -
  let ?s' = "fst (snd (setup_scheduler example_env example_poster))"
  have run: "setup_scheduler example_env example_poster =
      (fst (setup_scheduler example_env example_poster), ?s',
       snd (snd (setup_scheduler example_env example_poster)))"
    by simp
  have new: "drop (length (jobs (scheduler example_poster))) (jobs (scheduler ?s')) =
      [daily_job, weekly_job, monthly_job, once_job]"
    by code_simp
  have parsed: "dt = example_time"
    if "map_of (job_args j) ''time'' = Some (JStr t)" "strptime example_env t = Inr dt"
      "map_of (job_args j) ''time'' = Some (JStr ''2024-01-15 09:30:00'')"
    for j :: job and t dt
    using that by (simp add: example_env_def)
  have wd: "weekday example_time = 0" "weekday (example_time\<lparr>day := 22\<rparr>) = 0"
    "weekday (example_time\<lparr>day := 23\<rparr>) = 1"
    by code_simp+
  have fld: "hour example_time = 9" "minute example_time = 30" "second example_time = 0"
    "day example_time = 15"
    by (simp_all add: example_time_def)
  \<comment> \<open>the daily post\<close>
  have "daily_job \<in> set (drop (length (jobs (scheduler example_poster))) (jobs (scheduler ?s')))"
    by (simp add: new)
  from trigger_follows_recurrence_table [OF run this] obtain t dt where
    "map_of (job_args daily_job) ''time'' = Some (JStr t)" "strptime example_env t = Inr dt"
    and tab: "dict_get (job_args daily_job) ''repeat'' (JStr ''once'') = JStr ''daily'' \<longrightarrow>
      (\<forall>i. fires (job_trigger daily_job) i \<longleftrightarrow>
             hour i = hour dt \<and> minute i = minute dt \<and> second i = 0)"
    by blast
  moreover have "map_of (job_args daily_job) ''time'' = Some (JStr ''2024-01-15 09:30:00'')"
    and "dict_get (job_args daily_job) ''repeat'' (JStr ''once'') = JStr ''daily''"
    by (simp_all add: daily_job_def text_post_def dict_get_def)
  ultimately have daily: "\<forall>i. fires (job_trigger daily_job) i \<longleftrightarrow>
      hour i = 9 \<and> minute i = 30 \<and> second i = 0"
    using parsed [of daily_job t dt] fld by simp
  \<comment> \<open>the weekly post\<close>
  have "weekly_job \<in> set (drop (length (jobs (scheduler example_poster))) (jobs (scheduler ?s')))"
    by (simp add: new)
  from trigger_follows_recurrence_table [OF run this] obtain t dt where
    "map_of (job_args weekly_job) ''time'' = Some (JStr t)" "strptime example_env t = Inr dt"
    and tab: "dict_get (job_args weekly_job) ''repeat'' (JStr ''once'') = JStr ''weekly'' \<longrightarrow>
      (\<forall>i. fires (job_trigger weekly_job) i \<longleftrightarrow>
             weekday i = weekday dt \<and> hour i = hour dt \<and> minute i = minute dt \<and> second i = 0)"
    by blast
  moreover have "map_of (job_args weekly_job) ''time'' = Some (JStr ''2024-01-15 09:30:00'')"
    and "dict_get (job_args weekly_job) ''repeat'' (JStr ''once'') = JStr ''weekly''"
    by (simp_all add: weekly_job_def missing_media_post_def dict_get_def)
  ultimately have weekly: "\<forall>i. fires (job_trigger weekly_job) i \<longleftrightarrow>
      weekday i = 0 \<and> hour i = 9 \<and> minute i = 30 \<and> second i = 0"
    using parsed [of weekly_job t dt] fld wd by simp
  \<comment> \<open>the monthly post\<close>
  have "monthly_job \<in> set (drop (length (jobs (scheduler example_poster))) (jobs (scheduler ?s')))"
    by (simp add: new)
  from trigger_follows_recurrence_table [OF run this] obtain t dt where
    "map_of (job_args monthly_job) ''time'' = Some (JStr t)" "strptime example_env t = Inr dt"
    and tab: "dict_get (job_args monthly_job) ''repeat'' (JStr ''once'') = JStr ''monthly'' \<longrightarrow>
      (\<forall>i. fires (job_trigger monthly_job) i \<longleftrightarrow>
             day i = day dt \<and> hour i = hour dt \<and> minute i = minute dt \<and> second i = 0)"
    by blast
  moreover have "map_of (job_args monthly_job) ''time'' = Some (JStr ''2024-01-15 09:30:00'')"
    and "dict_get (job_args monthly_job) ''repeat'' (JStr ''once'') = JStr ''monthly''"
    by (simp_all add: monthly_job_def image_post_def dict_get_def)
  ultimately have monthly: "\<forall>i. fires (job_trigger monthly_job) i \<longleftrightarrow>
      day i = 15 \<and> hour i = 9 \<and> minute i = 30 \<and> second i = 0"
    using parsed [of monthly_job t dt] fld by simp
  \<comment> \<open>the one-time post\<close>
  have "once_job \<in> set (drop (length (jobs (scheduler example_poster))) (jobs (scheduler ?s')))"
    by (simp add: new)
  from trigger_follows_recurrence_table [OF run this] obtain t dt where
    "map_of (job_args once_job) ''time'' = Some (JStr t)" "strptime example_env t = Inr dt"
    and tab: "dict_get (job_args once_job) ''repeat'' (JStr ''once'')
          \<notin> {JStr ''daily'', JStr ''weekly'', JStr ''monthly''} \<longrightarrow>
      (\<forall>i. fires (job_trigger once_job) i \<longleftrightarrow> i = dt\<lparr>second := 0\<rparr>)"
    by blast
  moreover have "map_of (job_args once_job) ''time'' = Some (JStr ''2024-01-15 09:30:00'')"
    and "dict_get (job_args once_job) ''repeat'' (JStr ''once'')
          \<notin> {JStr ''daily'', JStr ''weekly'', JStr ''monthly''}"
    by (simp_all add: once_job_def no_text_post_def dict_get_def)
  ultimately have once: "\<forall>i. fires (job_trigger once_job) i \<longleftrightarrow> i = example_time\<lparr>second := 0\<rparr>"
    using parsed [of once_job t dt] by simp
  have sub: "set [daily_job, weekly_job, monthly_job, once_job] \<subseteq>
     set (drop (length (jobs (scheduler example_poster))) (jobs (scheduler ?s')))"
    by (simp only: new subset_refl)
  have "example_time\<lparr>year := 2025\<rparr> \<noteq> example_time\<lparr>second := 0\<rparr>"
    and "example_time = example_time\<lparr>second := 0\<rparr>"
    by (simp_all add: example_time_def)
  with sub daily weekly monthly once wd fld show ?thesis by simp
qed


text \<open>
  Claim C2. \<^verbatim>\<open>send_default_image\<close> has three behaviours. Before readiness its only
  effect is the reply that the bot is not ready. Ready with no default image configured,
  its only effect is the reply that no default image is configured. Ready with a default
  image configured, it is exactly one image send (\<^const>\<open>send_media\<close>) of the configured
  path under the fixed caption: no reply, no chat message, at most one upload, and
  exactly one upload, of that path with that caption, when the file exists and opens.
\<close>

theorem send_default_image_cases:
  "(\<not> is_ready s \<longrightarrow>
      snd (send_default_image e s) = [ReplyText ''Bot not ready yet.'']) \<and>
   (is_ready s \<and> \<not> truthy (dict_get (config s) ''image_path'' JNull) \<longrightarrow>
      snd (send_default_image e s) = [ReplyText ''No default image configured.'']) \<and>
   (is_ready s \<and> truthy (dict_get (config s) ''image_path'' JNull) \<longrightarrow>
      send_default_image e s =
        send_media e s (JStr default_caption) (dict_get (config s) ''image_path'' JNull) \<and>
      filter is_reply (snd (send_default_image e s)) = [] \<and>
      filter is_send_message (snd (send_default_image e s)) = [] \<and>
      length (filter is_http_post (snd (send_default_image e s))) \<le> 1 \<and>
      (\<forall>p. path_resolve e (dict_get (config s) ''image_path'' JNull) = Inr p \<and>
           path_exists e p \<and> open_rb e p = None \<longrightarrow>
         filter is_http_post (snd (send_default_image e s)) =
           [HttpPost (send_photo_url s) (chat_id s) (JStr default_caption) p]))"
  by (auto simp: send_default_image_def reply_def Let_def send_media_no_reply send_media_no_message
        send_media_at_most_one send_media_present split: option.splits)


text \<open>The same, on the example process.\<close>

theorem send_default_image_cases_witness:
  "\<not> is_ready example_poster \<and>
   snd (send_default_image example_env example_poster) = [ReplyText ''Bot not ready yet.''] \<and>
   is_ready bare_poster \<and> \<not> truthy (dict_get (config bare_poster) ''image_path'' JNull) \<and>
   snd (send_default_image example_env bare_poster) =
     [ReplyText ''No default image configured.''] \<and>
   is_ready ready_poster \<and>
   dict_get (config ready_poster) ''image_path'' JNull = JStr ''/home/bot/logo.png'' \<and>
   filter is_reply (snd (send_default_image example_env ready_poster)) = [] \<and>
   filter is_http_post (snd (send_default_image example_env ready_poster)) =
     [HttpPost ''https://api.telegram.org/bot123:abc/sendPhoto'' (Some ''42'')
        (JStr default_caption) ''/home/bot/logo.png'']"
proof -
  have a: "\<not> is_ready example_poster"
    by code_simp
  have b: "is_ready bare_poster"
    and b': "\<not> truthy (dict_get (config bare_poster) ''image_path'' JNull)"
    by code_simp+
  have c: "is_ready ready_poster"
    and c': "dict_get (config ready_poster) ''image_path'' JNull = JStr ''/home/bot/logo.png''"
    by code_simp+
  have d: "path_resolve example_env (JStr ''/home/bot/logo.png'') = Inr ''/home/bot/logo.png''"
    and d': "path_exists example_env ''/home/bot/logo.png''"
    and d'': "open_rb example_env ''/home/bot/logo.png'' = None"
    by (simp_all add: path_resolve_def path_exists_def example_env_def)
  have u: "send_photo_url ready_poster = ''https://api.telegram.org/bot123:abc/sendPhoto''"
    and u': "chat_id ready_poster = Some ''42''"
    by code_simp+
  from c' have tr: "truthy (dict_get (config ready_poster) ''image_path'' JNull)"
    by (simp add: truthy_def)
  from send_default_image_cases [of example_poster example_env] a
  have r1: "snd (send_default_image example_env example_poster) = [ReplyText ''Bot not ready yet.'']"
    by blast
  from send_default_image_cases [of bare_poster example_env] b b'
  have r2: "snd (send_default_image example_env bare_poster) =
      [ReplyText ''No default image configured.'']"
    by blast
  from send_default_image_cases [of ready_poster example_env] c tr
  have r3: "filter is_reply (snd (send_default_image example_env ready_poster)) = []"
    and r4: "\<forall>p. path_resolve example_env (dict_get (config ready_poster) ''image_path'' JNull) = Inr p \<and>
           path_exists example_env p \<and> open_rb example_env p = None \<longrightarrow>
         filter is_http_post (snd (send_default_image example_env ready_poster)) =
           [HttpPost (send_photo_url ready_poster) (chat_id ready_poster) (JStr default_caption) p]"
    by blast+
  from r4 c' d d' d'' u u'
  have r5: "filter is_http_post (snd (send_default_image example_env ready_poster)) =
     [HttpPost ''https://api.telegram.org/bot123:abc/sendPhoto'' (Some ''42'')
        (JStr default_caption) ''/home/bot/logo.png'']"
    by simp
  from a b b' c c' r1 r2 r3 r5 show ?thesis by simp
qed


text \<open>
  Claim C3. Dispatch (\<^verbatim>\<open>_send_post\<close>) returns normally on every post, whatever the
  environment answers. For a post with a text, it is the image send of that text and
  media when the \<open>media\<close> key is set, and otherwise the text send, whose error, if any,
  is logged and goes no further. A post with media sends no chat message and a post
  without media makes no upload.
\<close>

theorem send_post_dispatch:
  "fst (send_post e s post) = Inr () \<and>
   (\<forall>text media. map_of post ''media'' = Some media \<and> map_of post ''text'' = Some text \<longrightarrow>
      send_post e s post = send_media e s text media) \<and>
   (\<forall>text. map_of post ''media'' = None \<and> map_of post ''text'' = Some text \<longrightarrow>
      send_post e s post =
        (case send_text e s text of
           (Inl err, evs) \<Rightarrow> (Inr (), evs @ [Log ERROR ''Send post error'' (ArgErr err)])
         | (Inr u, evs) \<Rightarrow> (Inr (), evs))) \<and>
   (map_of post ''media'' \<noteq> None \<longrightarrow> filter is_send_message (snd (send_post e s post)) = []) \<and>
   (map_of post ''media'' = None \<longrightarrow> filter is_http_post (snd (send_post e s post)) = [])"
proof -
  have ret: "fst (send_post e s post) = Inr ()"
    by (simp add: send_post_def split: prod.splits sum.splits)
  have img: "send_post e s post = send_media e s body media"
    if "map_of post ''media'' = Some media" "map_of post ''text'' = Some body" for body media
    using that send_media_returns [of e s body media]
    by (cases "send_media e s body media") (simp add: send_post_def send_post_body_def subscript_def)
  have plain: "send_post e s post =
        (case send_text e s body of
           (Inl err, evs) \<Rightarrow> (Inr (), evs @ [Log ERROR ''Send post error'' (ArgErr err)])
         | (Inr u, evs) \<Rightarrow> (Inr (), evs))"
    if "map_of post ''media'' = None" "map_of post ''text'' = Some body" for body
    using that by (simp add: send_post_def send_post_body_def subscript_def split: prod.splits sum.splits)
  have nomsg: "filter is_send_message (snd (send_post e s post)) = []"
    if m: "map_of post ''media'' \<noteq> None"
  proof (cases "map_of post ''text''")
    case None
    then show ?thesis by (simp add: send_post_def send_post_body_def subscript_def)
  next
    case (Some body)
    from m obtain media where "map_of post ''media'' = Some media" by auto
    with Some img have "send_post e s post = send_media e s body media" by simp
    then show ?thesis by (simp add: send_media_no_message)
  qed
  have noup: "filter is_http_post (snd (send_post e s post)) = []"
    if m: "map_of post ''media'' = None"
  proof (cases "map_of post ''text''")
    case None
    then show ?thesis by (simp add: send_post_def send_post_body_def subscript_def)
  next
    case (Some body)
    with m plain have eq: "send_post e s post =
        (case send_text e s body of
           (Inl err, evs) \<Rightarrow> (Inr (), evs @ [Log ERROR ''Send post error'' (ArgErr err)])
         | (Inr u, evs) \<Rightarrow> (Inr (), evs))" by simp
    show ?thesis using send_text_no_upload [of e s body]
      by (auto simp: eq split: prod.splits sum.splits)
  qed
  from ret img plain nomsg noup show ?thesis by blast
qed


text \<open>The same, on the example process.\<close>

theorem send_post_dispatch_witness:
  "map_of text_post ''media'' = None \<and> map_of text_post ''text'' = Some (JStr ''Good morning'') \<and>
   send_post example_env ready_poster text_post =
     (Inr (), [SendMessage (Some ''42'') (JStr ''Good morning'') ''HTML'',
               Log INFO ''Sent message'' (ArgJson (JStr ''Good morning''))]) \<and>
   map_of image_post ''media'' = Some (JStr ''~/logo.png'') \<and>
   map_of image_post ''text'' = Some (JStr ''Logo'') \<and>
   send_post example_env ready_poster image_post =
     (Inr (), [HttpPost ''https://api.telegram.org/bot123:abc/sendPhoto'' (Some ''42'')
                 (JStr ''Logo'') ''/home/bot/logo.png'',
               Log INFO ''Successfully sent media'' (ArgJson (JStr ''Logo''))]) \<and>
   send_post (example_env\<lparr>send_message := \<lambda>c t. Some (OtherError ''network'')\<rparr>)
       ready_poster text_post =
     (Inr (), [SendMessage (Some ''42'') (JStr ''Good morning'') ''HTML'',
               Log ERROR ''Send post error'' (ArgErr (OtherError ''network''))])"
proof -
  let ?down = "example_env\<lparr>send_message := \<lambda>c t. Some (OtherError ''network'')\<rparr>"
  have t1: "map_of text_post ''media'' = None"
    and t2: "map_of text_post ''text'' = Some (JStr ''Good morning'')"
    by (simp_all add: text_post_def)
  have i1: "map_of image_post ''media'' = Some (JStr ''~/logo.png'')"
    and i2: "map_of image_post ''text'' = Some (JStr ''Logo'')"
    by (simp_all add: image_post_def)
  have e1: "send_text example_env ready_poster (JStr ''Good morning'') =
      (Inr (), [SendMessage (Some ''42'') (JStr ''Good morning'') ''HTML'',
                Log INFO ''Sent message'' (ArgJson (JStr ''Good morning''))])"
    by code_simp
  have e2: "send_media example_env ready_poster (JStr ''Logo'') (JStr ''~/logo.png'') =
      (Inr (), [HttpPost ''https://api.telegram.org/bot123:abc/sendPhoto'' (Some ''42'')
                 (JStr ''Logo'') ''/home/bot/logo.png'',
               Log INFO ''Successfully sent media'' (ArgJson (JStr ''Logo''))])"
    by code_simp
  have e3: "send_text ?down ready_poster (JStr ''Good morning'') =
      (Inl (OtherError ''network''), [SendMessage (Some ''42'') (JStr ''Good morning'') ''HTML''])"
    by code_simp
  from send_post_dispatch [of example_env ready_poster text_post] t1 t2
  have "send_post example_env ready_poster text_post =
        (case send_text example_env ready_poster (JStr ''Good morning'') of
           (Inl err, evs) \<Rightarrow> (Inr (), evs @ [Log ERROR ''Send post error'' (ArgErr err)])
         | (Inr u, evs) \<Rightarrow> (Inr (), evs))"
    by blast
  with e1 have r1: "send_post example_env ready_poster text_post =
     (Inr (), [SendMessage (Some ''42'') (JStr ''Good morning'') ''HTML'',
               Log INFO ''Sent message'' (ArgJson (JStr ''Good morning''))])"
    by simp
  from send_post_dispatch [of example_env ready_poster image_post] i1 i2
  have "send_post example_env ready_poster image_post =
      send_media example_env ready_poster (JStr ''Logo'') (JStr ''~/logo.png'')"
    by blast
  with e2 have r2: "send_post example_env ready_poster image_post =
     (Inr (), [HttpPost ''https://api.telegram.org/bot123:abc/sendPhoto'' (Some ''42'')
                 (JStr ''Logo'') ''/home/bot/logo.png'',
               Log INFO ''Successfully sent media'' (ArgJson (JStr ''Logo''))])"
    by simp
  from send_post_dispatch [of ?down ready_poster text_post] t1 t2
  have "send_post ?down ready_poster text_post =
        (case send_text ?down ready_poster (JStr ''Good morning'') of
           (Inl err, evs) \<Rightarrow> (Inr (), evs @ [Log ERROR ''Send post error'' (ArgErr err)])
         | (Inr u, evs) \<Rightarrow> (Inr (), evs))"
    by blast
  with e3 have r3: "send_post ?down ready_poster text_post =
     (Inr (), [SendMessage (Some ''42'') (JStr ''Good morning'') ''HTML'',
               Log ERROR ''Send post error'' (ArgErr (OtherError ''network''))])"
    by simp
  from t1 t2 i1 i2 r1 r2 r3 show ?thesis by simp
qed


text \<open>
  Claim C4. \<^verbatim>\<open>_load_config\<close> always returns a configuration and never raises. When
  reading or parsing the file fails, it logs that failure once and returns the
  configuration whose post list is empty and that has no default image.
\<close>

theorem load_config_never_raises:
  "(\<exists>c. fst (load_config e) = Inr c) \<and>
   (\<forall>err. read_config e = Inl err \<longrightarrow>
      load_config e = (Inr [(''scheduled_posts'', JList [])],
                       [Log ERROR ''Config loading failed'' (ArgErr err)]) \<and>
      iter_json (dict_get [(''scheduled_posts'', JList [])] ''scheduled_posts'' (JList [])) = Inr [] \<and>
      dict_get [(''scheduled_posts'', JList [])] ''image_path'' JNull = JNull)"
  by (auto simp: load_config_def load_config_body_def iter_json_def dict_get_def split: prod.splits sum.splits)


text \<open>The same, on the example process.\<close>

theorem load_config_never_raises_witness:
  "read_config broken_env = Inl OSError \<and>
   load_config broken_env =
     (Inr [(''scheduled_posts'', JList [])],
      [Log ERROR ''Config loading failed'' (ArgErr OSError)]) \<and>
   dict_get [(''scheduled_posts'', JList [])] ''image_path'' JNull = JNull"
  using load_config_never_raises [of broken_env]
  by (simp add: broken_env_def)


text \<open>
  Claim C5. During initialisation (the trigger engine not yet started), for every list
  of posts \<^verbatim>\<open>_setup_scheduler\<close> returns normally; the jobs it adds are exactly those of
  the posts whose job can be built, in order, and it logs one error for each of the
  other posts. In particular every post whose \<open>time\<close> parses and whose trigger
  constructs is registered under its own index, whatever happens to the other posts.
\<close>

theorem setup_scheduler_skips_failures:
  assumes "\<not> running (scheduler s)"
    and "dict_get (config s) ''scheduled_posts'' (JList []) = JList posts"
  shows "\<exists>s' evs. setup_scheduler e s = (Inr (), s', evs) \<and>
     jobs (scheduler s') = jobs (scheduler s) @ List.map_filter (job_of e) (enumerate 0 posts) \<and>
     evs = List.map_filter (failure_of e) (enumerate 0 posts) \<and>
     list_all is_error_log evs \<and>
     (\<forall>i d t dt. i < length posts \<and> posts ! i = JObj d \<and>
        map_of d ''time'' = Some (JStr t) \<and> strptime e t = Inr dt \<and>
        cron_trigger_error e (trigger_kwargs dt (dict_get d ''repeat'' (JStr ''once''))) = None \<longrightarrow>
        \<lparr>job_id = ''post_'' @ str_of_nat i,
         job_trigger = trigger_kwargs dt (dict_get d ''repeat'' (JStr ''once'')),
         job_args = d\<rparr> \<in> set (jobs (scheduler s')))"
proof -
  let ?js = "List.map_filter (job_of e) (enumerate 0 posts)"
  let ?evs = "List.map_filter (failure_of e) (enumerate 0 posts)"
  let ?s' = "s\<lparr>scheduler := (scheduler s)\<lparr>jobs := jobs (scheduler s) @ ?js\<rparr>\<rparr>"
  from assms have run: "setup_scheduler e s = (Inr (), ?s', ?evs)"
    by (simp add: setup_scheduler_def iter_json_def setup_loop_stopped)
  have "is_error_log x" if "failure_of e ip = Some x" for ip x
    using that by (cases "new_job e (fst ip) (snd ip)") (auto simp: failure_of_def)
  then have logs: "list_all is_error_log ?evs"
    by (auto simp: list_all_iff in_set_map_filter)
  have reg: "\<lparr>job_id = ''post_'' @ str_of_nat i,
         job_trigger = trigger_kwargs dt (dict_get d ''repeat'' (JStr ''once'')),
         job_args = d\<rparr> \<in> set (jobs (scheduler ?s'))"
    if "i < length posts" "posts ! i = JObj d" "map_of d ''time'' = Some (JStr t)"
       "strptime e t = Inr dt"
       "cron_trigger_error e (trigger_kwargs dt (dict_get d ''repeat'' (JStr ''once''))) = None"
    for i d t dt
  proof -
    from that have "(i, JObj d) \<in> set (enumerate 0 posts)"
      by (simp add: in_set_enumerate_eq)
    moreover from that have "job_of e (i, JObj d) =
        Some \<lparr>job_id = ''post_'' @ str_of_nat i,
         job_trigger = trigger_kwargs dt (dict_get d ''repeat'' (JStr ''once'')),
         job_args = d\<rparr>"
      by (simp add: job_of_def new_job_ok)
    ultimately show ?thesis by (auto simp: in_set_map_filter)
  qed
  from run logs reg show ?thesis by simp
qed


text \<open>The same, on the example process.\<close>

theorem setup_scheduler_skips_failures_witness:
  "\<not> running (scheduler example_poster) \<and>
   dict_get (config example_poster) ''scheduled_posts'' (JList []) = JList example_posts \<and>
   fst (setup_scheduler example_env example_poster) = Inr () \<and>
   jobs (scheduler (fst (snd (setup_scheduler example_env example_poster)))) =
     [daily_job, weekly_job, monthly_job, once_job] \<and>
   snd (snd (setup_scheduler example_env example_poster)) =
     [Log ERROR ''Failed to schedule post'' (ArgErr ValueError)]"
proof -
  have h1: "\<not> running (scheduler example_poster)"
    by code_simp
  have h2: "dict_get (config example_poster) ''scheduled_posts'' (JList []) = JList example_posts"
    by code_simp
  from setup_scheduler_skips_failures [OF h1 h2, of example_env] obtain s' evs where
    run: "setup_scheduler example_env example_poster = (Inr (), s', evs)" and
    js: "jobs (scheduler s') =
      jobs (scheduler example_poster) @ List.map_filter (job_of example_env) (enumerate 0 example_posts)" and
    evs: "evs = List.map_filter (failure_of example_env) (enumerate 0 example_posts)"
    by blast
  have k0: "jobs (scheduler example_poster) = []"
    by code_simp
  have k1: "List.map_filter (job_of example_env) (enumerate 0 example_posts) =
      [daily_job, weekly_job, monthly_job, once_job]"
    by code_simp
  have k2: "List.map_filter (failure_of example_env) (enumerate 0 example_posts) =
      [Log ERROR ''Failed to schedule post'' (ArgErr ValueError)]"
    by code_simp
  from run js evs k0 k1 k2 h1 h2 show ?thesis by simp
qed


text \<open>
  Claim C6. When the resolved media path of a post does not exist at send time, the
  image send logs that the file was not found and does nothing else, and dispatching the
  post returns normally with no upload, no chat message and exactly one logged error
  (the missing file, when the post has a text).
\<close>

theorem send_media_missing_file:
  assumes "map_of post ''media'' = Some m" and "path_resolve e m = Inr p"
    and "\<not> path_exists e p"
  shows "send_media e s caption m = (Inr (), [Log ERROR ''Media file not found'' (ArgStr p)]) \<and>
     fst (send_post e s post) = Inr () \<and>
     filter is_http_post (snd (send_post e s post)) = [] \<and>
     filter is_send_message (snd (send_post e s post)) = [] \<and>
     length (filter is_error_log (snd (send_post e s post))) = 1 \<and>
     (map_of post ''text'' \<noteq> None \<longrightarrow>
        snd (send_post e s post) = [Log ERROR ''Media file not found'' (ArgStr p)])"
proof (cases "map_of post ''text''")
  case None
  then have "send_post e s post = (Inr (), [Log ERROR ''Send post error'' (ArgErr (KeyError ''text''))])"
    by (simp add: send_post_def send_post_body_def subscript_def)
  with None assms show ?thesis by (simp add: send_media_absent)
next
  case (Some body)
  with assms have "send_post e s post = (Inr (), [Log ERROR ''Media file not found'' (ArgStr p)])"
    by (simp add: send_post_def send_post_body_def subscript_def send_media_absent)
  with Some assms show ?thesis by (simp add: send_media_absent)
qed


text \<open>The same, on the example process.\<close>

theorem send_media_missing_file_witness:
  "map_of missing_media_post ''media'' = Some (JStr ''~/missing.png'') \<and>
   path_resolve example_env (JStr ''~/missing.png'') = Inr ''/home/bot/missing.png'' \<and>
   \<not> path_exists example_env ''/home/bot/missing.png'' \<and>
   send_post example_env ready_poster missing_media_post =
     (Inr (), [Log ERROR ''Media file not found'' (ArgStr ''/home/bot/missing.png'')])"
proof -
  have h1: "map_of missing_media_post ''media'' = Some (JStr ''~/missing.png'')"
    by (simp add: missing_media_post_def)
  have h2: "path_resolve example_env (JStr ''~/missing.png'') = Inr ''/home/bot/missing.png''"
    by (simp add: path_resolve_def example_env_def)
  have h3: "\<not> path_exists example_env ''/home/bot/missing.png''"
    by (simp add: path_exists_def example_env_def)
  have h4: "map_of missing_media_post ''text'' \<noteq> None"
    by (simp add: missing_media_post_def)
  from send_media_missing_file [OF h1 h2 h3, of ready_poster "JStr ''Weekly digest''"] h4
  have "fst (send_post example_env ready_poster missing_media_post) = Inr ()"
    and "snd (send_post example_env ready_poster missing_media_post) =
      [Log ERROR ''Media file not found'' (ArgStr ''/home/bot/missing.png'')]"
    by simp_all
  then have "send_post example_env ready_poster missing_media_post =
     (Inr (), [Log ERROR ''Media file not found'' (ArgStr ''/home/bot/missing.png'')])"
    by (simp add: prod_eq_iff)
  with h1 h2 h3 show ?thesis by simp
qed


text \<open>
  Claim C7. \<^verbatim>\<open>_validate_image_path\<close> is a function of the raw path and the file system
  alone. It returns a path exactly when the raw path resolves to that path and the path
  is an existing, readable regular file; it returns nothing for a path that does not
  exist, for a directory and for an unreadable file. It has no effect but log lines.
\<close>

theorem validate_image_path_spec:
  "(fst (validate_image_path e raw) = Some p \<longleftrightarrow>
      resolve e raw = Inr p \<and> fs e p = Some (RegularFile, True)) \<and>
   (resolve e raw = Inr p \<and> fs e p = None \<longrightarrow> fst (validate_image_path e raw) = None) \<and>
   (resolve e raw = Inr p \<and> (\<exists>r. fs e p = Some (Directory, r)) \<longrightarrow>
      fst (validate_image_path e raw) = None) \<and>
   (resolve e raw = Inr p \<and> (\<exists>k. fs e p = Some (k, False)) \<longrightarrow>
      fst (validate_image_path e raw) = None) \<and>
   list_all is_log (snd (validate_image_path e raw))"
  by (auto simp: validate_image_path_def path_is_file_def access_r_def
           split: sum.splits option.splits file_kind.splits prod.splits if_splits)


text \<open>The same, on the example process.\<close>

theorem validate_image_path_spec_witness:
  "fst (validate_image_path example_env ''~/logo.png'') = Some ''/home/bot/logo.png'' \<and>
   fst (validate_image_path example_env ''~/missing.png'') = None \<and>
   fst (validate_image_path example_env ''/home/bot'') = None \<and>
   fst (validate_image_path example_env ''~/secret.png'') = None"
proof -
  have r1: "resolve example_env ''~/logo.png'' = Inr ''/home/bot/logo.png''"
    and r2: "resolve example_env ''~/missing.png'' = Inr ''/home/bot/missing.png''"
    and r3: "resolve example_env ''/home/bot'' = Inr ''/home/bot''"
    and r4: "resolve example_env ''~/secret.png'' = Inr ''/home/bot/secret.png''"
    by (simp_all add: example_env_def)
  have f1: "fs example_env ''/home/bot/logo.png'' = Some (RegularFile, True)"
    and f2: "fs example_env ''/home/bot/missing.png'' = None"
    and f3: "fs example_env ''/home/bot'' = Some (Directory, True)"
    and f4: "fs example_env ''/home/bot/secret.png'' = Some (RegularFile, False)"
    by (simp_all add: example_env_def)
  from validate_image_path_spec [of example_env "''~/logo.png''" "''/home/bot/logo.png''"] r1 f1
  have "fst (validate_image_path example_env ''~/logo.png'') = Some ''/home/bot/logo.png''"
    by blast
  moreover
  from validate_image_path_spec [of example_env "''~/missing.png''" "''/home/bot/missing.png''"]
    r2 f2
  have "fst (validate_image_path example_env ''~/missing.png'') = None"
    by blast
  moreover
  from validate_image_path_spec [of example_env "''/home/bot''" "''/home/bot''"] r3 f3
  have "fst (validate_image_path example_env ''/home/bot'') = None"
    by blast
  moreover
  from validate_image_path_spec [of example_env "''~/secret.png''" "''/home/bot/secret.png''"]
    r4 f4
  have "fst (validate_image_path example_env ''~/secret.png'') = None"
    by blast
  ultimately show ?thesis by simp
qed


text \<open>
  Claim C8. \<^verbatim>\<open>initialize\<close> without an attached bot fails with the error
  \<^verbatim>\<open>RuntimeError("Bot instance not set")\<close> before anything else: no effect is
  performed and the agent is left as it was, so readiness stays unset and no trigger is
  registered.
\<close>

theorem initialize_without_bot:
  "bot s = None \<Longrightarrow>
   initialize e s = (Inl (RuntimeError ''Bot instance not set''), s, [])"
  by (simp add: initialize_def)


text \<open>The same, on the example process.\<close>

theorem initialize_without_bot_witness:
  "bot (fst (init_poster example_env)) = None \<and>
   initialize example_env (fst (init_poster example_env)) =
     (Inl (RuntimeError ''Bot instance not set''), fst (init_poster example_env), []) \<and>
   \<not> is_ready (fst (init_poster example_env)) \<and>
   jobs (scheduler (fst (init_poster example_env))) = []"
  using initialize_without_bot [of "fst (init_poster example_env)" example_env]
  by (simp add: init_poster_def split: prod.splits)





text \<open>
  Claim C10. Dispatching a post with no \<open>text\<close> key returns normally; its only
  effect is one logged error, the \<^verbatim>\<open>KeyError\<close> caught by the dispatch wrapper: no chat
  message and no upload.
\<close>

theorem send_post_missing_text:
  "map_of post ''text'' = None \<Longrightarrow>
   send_post e s post = (Inr (), [Log ERROR ''Send post error'' (ArgErr (KeyError ''text''))])"
  by (simp add: send_post_def send_post_body_def subscript_def)


text \<open>The same, on the example process.\<close>

theorem send_post_missing_text_witness:
  "map_of no_text_post ''text'' = None \<and>
   send_post example_env ready_poster no_text_post =
     (Inr (), [Log ERROR ''Send post error'' (ArgErr (KeyError ''text''))])"
  using send_post_missing_text [of no_text_post example_env ready_poster]
  by (simp add: no_text_post_def)

end
